theory Spec2Isabelle
  imports Main
begin

section \<open>Python values, exceptions and dictionaries\<close>

text \<open>
  The values that flow through \<^verbatim>\<open>flowdock.py\<close>: \<^verbatim>\<open>None\<close>, booleans, integers, strings,
  lists and dictionaries with string keys. A dictionary is an association list in
  insertion order.
\<close>

datatype pyval =
    PNone
  | PBool bool
  | PInt int
  | PStr string
  | PList "pyval list"
  | PDict "(string \<times> pyval) list"

type_synonym dict = "(string \<times> pyval) list"

text \<open>
  The exception classes the program can meet. \<open>JSONDecodeError\<close> is what
  \<^verbatim>\<open>json.loads\<close> raises; \<open>ClientConnectionError\<close> is aiohttp's class (and stands for its
  subclasses); \<open>AttributeError cls name\<close> is a failed attribute lookup on an object of
  class \<open>cls\<close>.
\<close>

datatype exn =
    TypeError string
  | ValueError string
  | AttributeError string string
  | JSONDecodeError string
  | ClientConnectionError string
  | OtherException string

fun is_ClientConnectionError :: "exn \<Rightarrow> bool" where
  "is_ClientConnectionError (ClientConnectionError _) = True"
| "is_ClientConnectionError _ = False"

text \<open>Truth value testing, as used by \<^verbatim>\<open>x or y\<close>.\<close>

fun truthy :: "pyval \<Rightarrow> bool" where
  "truthy PNone = False"
| "truthy (PBool b) = b"
| "truthy (PInt i) = (i \<noteq> 0)"
| "truthy (PStr s) = (s \<noteq> [])"
| "truthy (PList xs) = (xs \<noteq> [])"
| "truthy (PDict d) = (d \<noteq> [])"

definition py_or :: "pyval \<Rightarrow> pyval \<Rightarrow> pyval" where
  "py_or a b = (if truthy a then a else b)"

fun is_list :: "pyval \<Rightarrow> bool" where
  "is_list (PList _) = True"
| "is_list _ = False"

text \<open>\<^verbatim>\<open>d[k] = v\<close>: an existing key keeps its position, a new key goes to the end.\<close>

fun dict_set :: "string \<Rightarrow> pyval \<Rightarrow> dict \<Rightarrow> dict" where
  "dict_set k v [] = [(k, v)]"
| "dict_set k v ((k', v') # d) =
     (if k' = k then (k, v) # d else (k', v') # dict_set k v d)"

text \<open>\<^verbatim>\<open>d.update(e)\<close>: the items of \<open>e\<close> are stored into \<open>d\<close> one after the other.\<close>

fun dict_update :: "dict \<Rightarrow> dict \<Rightarrow> dict" where
  "dict_update d [] = d"
| "dict_update d ((k, v) # e) = dict_update (dict_set k v d) e"

definition dict_get :: "dict \<Rightarrow> string \<Rightarrow> pyval option" where
  "dict_get d k = map_of d k"

text \<open>Decimal rendering of integers, for \<^verbatim>\<open>"%s" % n\<close>.\<close>

definition digit_char :: "nat \<Rightarrow> char" where
  "digit_char d = ''0123456789'' ! d"

fun str_nat :: "nat \<Rightarrow> string" where
  "str_nat n = (if n < 10 then [digit_char n] else str_nat (n div 10) @ [digit_char (n mod 10)])"

declare str_nat.simps [simp del]

definition str_int :: "int \<Rightarrow> string" where
  "str_int i = (if i < 0 then CHR ''-'' # str_nat (nat (- i)) else str_nat (nat i))"

text \<open>\<^verbatim>\<open>s.lower()\<close> on the ASCII letters.\<close>

definition lower_char :: "char \<Rightarrow> char" where
  "lower_char c =
     (case map_of (zip ''ABCDEFGHIJKLMNOPQRSTUVWXYZ'' ''abcdefghijklmnopqrstuvwxyz'') c of
        Some l \<Rightarrow> l
      | None \<Rightarrow> c)"

definition lower :: "string \<Rightarrow> string" where
  "lower s = map lower_char s"

text \<open>
  The constructor call \<^verbatim>\<open>dict(*args, **kwargs)\<close>. It accepts at most one positional
  argument and raises \<^verbatim>\<open>TypeError\<close> otherwise. Of the one-argument forms only the copy of
  a dictionary is modelled (no call of this program passes exactly one positional
  argument).
\<close>

definition py_dict :: "pyval list \<Rightarrow> dict \<Rightarrow> exn + pyval" where
  "py_dict args kwargs =
     (case args of
        [] \<Rightarrow> Inr (PDict (dict_update [] kwargs))
      | [a] \<Rightarrow>
          (case a of
             PDict d \<Rightarrow> Inr (PDict (dict_update d kwargs))
           | _ \<Rightarrow> Inl (TypeError ''object is not a mapping''))
      | _ \<Rightarrow>
          Inl (TypeError (''dict expected at most 1 argument, got '' @ str_nat (length args))))"

section \<open>The request client: class Session\<close>

record session =
  email :: string
  password :: string
  url :: string
  auth :: string

text \<open>
  The keyword arguments of \<^verbatim>\<open>self.session.request(method, url, **options)\<close>:
  \<^verbatim>\<open>headers\<close> is always there, and exactly one of \<^verbatim>\<open>params\<close> and \<^verbatim>\<open>json\<close>
  (\<open>None\<close> is an absent keyword).
\<close>

record http_call =
  hc_method :: string
  hc_url :: string
  hc_headers :: dict
  hc_params :: "pyval option"
  hc_json :: "pyval option"

text \<open>
  A response of the HTTP library: its status, and what \<^verbatim>\<open>await resp.text()\<close> and
  \<^verbatim>\<open>await resp.json()\<close> give (either may raise). Decoded JSON is an opaque type \<open>'j\<close>.
\<close>

record 'j response =
  resp_status :: int
  resp_text :: "exn + string"
  resp_json :: "exn + 'j"

datatype 'j request_value =
    Json_and_response 'j "'j response"
  | Exception_value exn

text \<open>
  A push event as the server-sent-events library hands it over; \<open>ev_data\<close> is the text
  that \<^verbatim>\<open>json.loads\<close> is applied to.
\<close>

record push_event =
  ev_type :: string
  ev_data :: string
  ev_origin :: string
  ev_last_event_id :: string

text \<open>What a notification carries: the raw event, a decoded message, or an exception.\<close>

datatype 'j payload =
    Raw_event push_event
  | Message 'j
  | Failure_payload exn

type_synonym 'j notification = "string \<times> 'j payload"

text \<open>
  What one awaited call does: its result (\<open>Inl\<close> is an exception that leaves the call),
  the HTTP requests it issued, and the notifications it published.
\<close>

record 'j run =
  result :: "exn + 'j request_value"
  issued :: "http_call list"
  published :: "'j notification list"

text \<open>
  Attribute lookup on a \<^verbatim>\<open>Session\<close> object. The class is declared \<^verbatim>\<open>class Session:\<close>
  with no base class; these are the attributes its body and \<^verbatim>\<open>__init__\<close> define.
\<close>

definition Session_attributes :: "string list" where
  "Session_attributes =
     [''email'', ''password'', ''session'', ''url'', ''auth'',
      ''stream'', ''flows'', ''send'', ''message'', ''thread_message'', ''comment'',
      ''private_message'', ''status'', ''invite'', ''edit_message'',
      ''post'', ''get'', ''put'', ''delete'', ''request'']"

definition Session_getattr :: "string \<Rightarrow> exn + unit" where
  "Session_getattr name =
     (if name \<in> set Session_attributes then Inr ()
      else Inl (AttributeError ''Session'' name))"

text \<open>
  \<^verbatim>\<open>Session.request\<close>. The HTTP library is the parameter \<open>transport\<close>: what
  \<^verbatim>\<open>await self.session.request(...)\<close> gives for a call (\<open>Inl\<close>: it raises).
\<close>

definition request ::
  "session \<Rightarrow> (http_call \<Rightarrow> exn + 'j response) \<Rightarrow> string \<Rightarrow> string \<Rightarrow> pyval \<Rightarrow> 'j run" where
  "request self transport method path data0 =
     (let data = py_or data0 (PDict []);
          u = url self @ ''/'' @ path;
          header = [(''Authorization'', PStr (auth self)),
                    (''Accept'', PStr ''application/json''),
                    (''Content-Type'', PStr ''application/json'')];
          call = (if lower method = ''get''
                  then \<lparr>hc_method = method, hc_url = u, hc_headers = header,
                        hc_params = Some data, hc_json = None\<rparr>
                  else \<lparr>hc_method = method, hc_url = u, hc_headers = header,
                        hc_params = None, hc_json = Some data\<rparr>);
          attempt =
            (case transport call of
               Inl e \<Rightarrow> Inl e
             | Inr resp \<Rightarrow>
                 if resp_status resp \<ge> 300 then
                   (case resp_text resp of
                      Inl e \<Rightarrow> Inl e
                    | Inr t \<Rightarrow> Inl (ValueError (''['' @ str_int (resp_status resp) @ ''] '' @ t)))
                 else
                   (case resp_json resp of
                      Inl e \<Rightarrow> Inl e
                    | Inr j \<Rightarrow> Inr (Json_and_response j resp)))
      in case attempt of
           Inr v \<Rightarrow> \<lparr>result = Inr v, issued = [call], published = []\<rparr>
         | Inl e \<Rightarrow>
             (case Session_getattr ''emit'' of
                Inl a \<Rightarrow> \<lparr>result = Inl a, issued = [call], published = []\<rparr>
              | Inr _ \<Rightarrow>
                  \<lparr>result = Inr (Exception_value e), issued = [call],
                   published = [(''error'', Failure_payload e)]\<rparr>))"

definition post ::
  "session \<Rightarrow> (http_call \<Rightarrow> exn + 'j response) \<Rightarrow> string \<Rightarrow> pyval \<Rightarrow> 'j run" where
  "post self transport path data = request self transport ''post'' path data"

definition get ::
  "session \<Rightarrow> (http_call \<Rightarrow> exn + 'j response) \<Rightarrow> string \<Rightarrow> pyval \<Rightarrow> 'j run" where
  "get self transport path data = request self transport ''get'' path data"

definition put ::
  "session \<Rightarrow> (http_call \<Rightarrow> exn + 'j response) \<Rightarrow> string \<Rightarrow> pyval \<Rightarrow> 'j run" where
  "put self transport path data = request self transport ''put'' path data"

definition delete ::
  "session \<Rightarrow> (http_call \<Rightarrow> exn + 'j response) \<Rightarrow> string \<Rightarrow> 'j run" where
  "delete self transport path = request self transport ''delete'' path PNone"

definition send ::
  "session \<Rightarrow> (http_call \<Rightarrow> exn + 'j response) \<Rightarrow> string \<Rightarrow> pyval \<Rightarrow> 'j run" where
  "send self transport path msg = post self transport path msg"

text \<open>
  \<^verbatim>\<open>Session.message\<close> and \<^verbatim>\<open>Session.thread_message\<close>. An exception of the payload
  construction leaves the call before anything is issued.
\<close>

definition message ::
  "session \<Rightarrow> (http_call \<Rightarrow> exn + 'j response) \<Rightarrow> pyval \<Rightarrow> pyval \<Rightarrow> pyval \<Rightarrow> 'j run" where
  "message self transport flow_id msg tags0 =
     (let tags = py_or tags0 (PList [])
      in case py_dict [] [(''flow'', flow_id), (''event'', PStr ''message''),
                          (''content'', msg), (''tags'', tags)] of
           Inl e \<Rightarrow> \<lparr>result = Inl e, issued = [], published = []\<rparr>
         | Inr data \<Rightarrow> send self transport ''/messages'' data)"

definition thread_message ::
  "session \<Rightarrow> (http_call \<Rightarrow> exn + 'j response) \<Rightarrow> pyval \<Rightarrow> pyval \<Rightarrow> pyval \<Rightarrow> pyval \<Rightarrow> 'j run" where
  "thread_message self transport flow_id thread_id msg tags0 =
     (let tags = py_or tags0 (PList [])
      in case py_dict [flow_id, thread_id]
                [(''event'', PStr ''message''), (''content'', msg), (''tags'', tags)] of
           Inl e \<Rightarrow> \<lparr>result = Inl e, issued = [], published = []\<rparr>
         | Inr data \<Rightarrow> send self transport ''/messages'' data)"

section \<open>The event stream: class EventStream\<close>

definition DEFAULT_STREAM_URL :: string where
  "DEFAULT_STREAM_URL = ''https://stream.flowdock.com/flows''"

text \<open>
  The server-sent-events source built by \<^verbatim>\<open>connect\<close>: its URL, the keyword arguments
  that \<^verbatim>\<open>_options()\<close> supplies, and the categories its two callbacks emit.
\<close>

record event_source =
  src_url :: string
  src_params :: dict
  src_headers :: dict
  src_on_open :: string
  src_on_error :: string

text \<open>The attributes of an \<^verbatim>\<open>EventStream\<close>; \<open>evt\<close> is \<^verbatim>\<open>self._evt\<close>.\<close>

record event_stream =
  evt :: "event_source option"
  es_auth :: string
  flows :: pyval
  params :: dict
  es_url :: string

text \<open>
  \<^verbatim>\<open>EventStream.__init__\<close>; \<open>environ\<close> is \<^verbatim>\<open>os.environ\<close>. An absent argument is
  \<open>None\<close>.
\<close>

definition EventStream_init ::
  "(string \<rightharpoonup> string) \<Rightarrow> string \<Rightarrow> pyval \<Rightarrow> string option \<Rightarrow> dict option \<Rightarrow> event_stream" where
  "EventStream_init environ a fl u p =
     \<lparr>evt = None,
      es_auth = a,
      flows = fl,
      params = (case p of None \<Rightarrow> [] | Some d \<Rightarrow> if d \<noteq> [] then d else []),
      es_url =
        (let fallback = (case environ ''FLOWDOCK_STREAM_URL'' of
                           Some s \<Rightarrow> s
                         | None \<Rightarrow> DEFAULT_STREAM_URL)
         in case u of None \<Rightarrow> fallback | Some s \<Rightarrow> if s \<noteq> [] then s else fallback)\<rparr>"

text \<open>\<^verbatim>\<open>Session.stream\<close>.\<close>

definition stream ::
  "session \<Rightarrow> (string \<rightharpoonup> string) \<Rightarrow> pyval \<Rightarrow> dict option \<Rightarrow> event_stream" where
  "stream self environ flows0 options0 =
     (let options = (case options0 of None \<Rightarrow> [] | Some d \<Rightarrow> if d \<noteq> [] then d else []);
          fl = (if \<not> is_list flows0 then PList [flows0] else flows0)
      in EventStream_init environ (auth self) fl None (Some options))"

text \<open>
  \<^verbatim>\<open>sep.join(v)\<close>: the items of a list must all be strings; a string is iterated by
  character and a dictionary by key; anything else is not iterable.
\<close>

fun join :: "string \<Rightarrow> string list \<Rightarrow> string" where
  "join sep [] = []"
| "join sep [x] = x"
| "join sep (x # y # ys) = x @ sep @ join sep (y # ys)"

fun strings_of :: "pyval list \<Rightarrow> string list option" where
  "strings_of [] = Some []"
| "strings_of (PStr s # vs) =
     (case strings_of vs of None \<Rightarrow> None | Some ss \<Rightarrow> Some (s # ss))"
| "strings_of (_ # vs) = None"

definition str_join :: "string \<Rightarrow> pyval \<Rightarrow> exn + string" where
  "str_join sep v =
     (case v of
        PList vs \<Rightarrow>
          (case strings_of vs of
             None \<Rightarrow> Inl (TypeError ''sequence item: expected str instance'')
           | Some ss \<Rightarrow> Inr (join sep ss))
      | PStr s \<Rightarrow> Inr (join sep (map (\<lambda>c. [c]) s))
      | PDict d \<Rightarrow> Inr (join sep (map fst d))
      | _ \<Rightarrow> Inl (TypeError ''can only join an iterable''))"

text \<open>\<^verbatim>\<open>EventStream._options\<close>.\<close>

record connect_options =
  opt_params :: dict
  opt_headers :: dict

definition stream_options :: "event_stream \<Rightarrow> exn + connect_options" where
  "stream_options self =
     (case str_join '','' (flows self) of
        Inl e \<Rightarrow> Inl e
      | Inr s \<Rightarrow>
          (let qs = dict_update [(''filter'', PStr s)] (params self)
           in Inr \<lparr>opt_params = qs,
                   opt_headers = [(''Authorization'', PStr (es_auth self))]\<rparr>))"

text \<open>
  What \<^verbatim>\<open>connect\<close> and \<^verbatim>\<open>end\<close> do to the outside: the handshake
  \<^verbatim>\<open>await self._evt.connect(retry)\<close>, the start of the decode loop
  \<^verbatim>\<open>self._loop.create_task(coro)\<close>, and \<^verbatim>\<open>await self._evt.close()\<close>.
\<close>

datatype action =
    Handshake event_source int
  | Create_task event_source
  | Close event_source

fun is_Handshake :: "action \<Rightarrow> bool" where
  "is_Handshake (Handshake _ _) = True"
| "is_Handshake _ = False"

fun is_Create_task :: "action \<Rightarrow> bool" where
  "is_Create_task (Create_task _) = True"
| "is_Create_task _ = False"

text \<open>
  \<^verbatim>\<open>EventStream.connect\<close>. The parameter \<open>handshake\<close> is the library's
  \<^verbatim>\<open>EventSource.connect\<close>: \<open>None\<close> when it returns, \<open>Some e\<close> when it raises \<open>e\<close>.
  The result is what the call gives (\<open>Inl\<close>: it raises), the object afterwards, and the
  actions in order.
\<close>

definition connect ::
  "event_stream \<Rightarrow> (event_source \<Rightarrow> int \<Rightarrow> exn option) \<Rightarrow> int \<Rightarrow>
     (exn + unit) \<times> event_stream \<times> action list" where
  "connect self handshake retry0 =
     (if evt self \<noteq> None then (Inr (), self, [])
      else
        case stream_options self of
          Inl e \<Rightarrow> (Inl e, self, [])
        | Inr opts \<Rightarrow>
            (let src = \<lparr>src_url = es_url self, src_params = opt_params opts,
                        src_headers = opt_headers opts,
                        src_on_open = ''connected'', src_on_error = ''error''\<rparr>;
                 self' = self\<lparr>evt := Some src\<rparr>;
                 retry = (if retry0 < 0 then 0 else retry0)
             in case handshake src retry of
                  Some e \<Rightarrow> (Inl e, self', [Handshake src retry])
                | None \<Rightarrow> (Inr (), self', [Handshake src retry, Create_task src])))"

text \<open>\<^verbatim>\<open>EventStream.end\<close>.\<close>

definition end_stream :: "event_stream \<Rightarrow> event_stream \<times> action list" where
  "end_stream self =
     (case evt self of
        None \<Rightarrow> (self, [])
      | Some src \<Rightarrow> (self\<lparr>evt := None\<rparr>, [Close src]))"

text \<open>
  The decode loop \<^verbatim>\<open>_process_data\<close>. Each step of \<^verbatim>\<open>async for evt in event_source\<close>
  either delivers an event or raises; the end of the list is the end of the iteration.
  \<^verbatim>\<open>json.loads\<close> is given by its grammar \<open>parse\<close> (\<open>None\<close>: the text is not JSON) and
  raises \<^verbatim>\<open>JSONDecodeError\<close> on a text outside it. The result is the list of
  notifications in the order of the \<^verbatim>\<open>emit\<close> calls.
\<close>

datatype delivery =
    Event push_event
  | Iteration_raises exn

definition json_loads :: "(string \<Rightarrow> 'j option) \<Rightarrow> string \<Rightarrow> exn + 'j" where
  "json_loads parse s = (case parse s of None \<Rightarrow> Inl (JSONDecodeError s) | Some j \<Rightarrow> Inr j)"

definition on_exception :: "exn \<Rightarrow> 'j notification" where
  "on_exception e =
     (if is_ClientConnectionError e then (''disconnected'', Failure_payload e)
      else (''clientError'', Failure_payload e))"

fun process_data :: "(string \<Rightarrow> 'j option) \<Rightarrow> delivery list \<Rightarrow> 'j notification list" where
  "process_data parse [] = []"
| "process_data parse (Iteration_raises e # rest) = [on_exception e]"
| "process_data parse (Event ev # rest) =
     (''rawdata'', Raw_event ev) #
     (case json_loads parse (ev_data ev) of
        Inl e \<Rightarrow> [on_exception e]
      | Inr msg \<Rightarrow> (''message'', Message msg) # process_data parse rest)"

section \<open>Observations and example inputs\<close>

text \<open>The value sent under the key \<^verbatim>\<open>filter\<close>, if \<^verbatim>\<open>_options()\<close> returns.\<close>

definition filter_sent :: "event_stream \<Rightarrow> pyval option" where
  "filter_sent self =
     (case stream_options self of
        Inl e \<Rightarrow> None
      | Inr opts \<Rightarrow> dict_get (opt_params opts) ''filter'')"

text \<open>
  The event source that \<^verbatim>\<open>connect\<close> builds for a stream whose flows are the strings
  \<open>cs\<close>.
\<close>

definition new_source :: "event_stream \<Rightarrow> string list \<Rightarrow> event_source" where
  "new_source self cs =
     \<lparr>src_url = es_url self,
      src_params = dict_update [(''filter'', PStr (join '','' cs))] (params self),
      src_headers = [(''Authorization'', PStr (es_auth self))],
      src_on_open = ''connected'', src_on_error = ''error''\<rparr>"

text \<open>
  One \<^verbatim>\<open>EventStream\<close> object in the hands of a caller: a list of awaited calls of
  \<^verbatim>\<open>connect\<close> and \<^verbatim>\<open>end\<close>. A \<open>Connect\<close> comes with the deliveries that the transport
  hands to the decode loop this call starts; they are read only when the call reaches
  \<^verbatim>\<open>create_task\<close>. The result is the object afterwards, the actions, and the
  notifications published for the object, in order.
\<close>

datatype call =
    Connect int "delivery list"
  | End



text \<open>A delivery that the decode loop gets past: an event whose data is JSON.\<close>

definition decodable :: "(string \<Rightarrow> 'j option) \<Rightarrow> delivery \<Rightarrow> bool" where
  "decodable parse d =
     (case d of Event ev \<Rightarrow> parse (ev_data ev) \<noteq> None | Iteration_raises e \<Rightarrow> False)"

definition example_session :: session where
  "example_session =
     \<lparr>email = ''a@b.c'', password = ''pw'', url = ''https://api.flowdock.com'',
      auth = ''Basic YUBiLmM6cHc=''\<rparr>"

definition not_found_response :: "pyval response" where
  "not_found_response =
     \<lparr>resp_status = 404, resp_text = Inr ''not found'',
      resp_json = Inl (OtherException ''ContentTypeError'')\<rparr>"

definition not_found :: "http_call \<Rightarrow> exn + pyval response" where
  "not_found c = Inr not_found_response"

definition server_error :: "http_call \<Rightarrow> exn + pyval response" where
  "server_error c =
     Inr \<lparr>resp_status = 500, resp_text = Inr ''boom'',
          resp_json = Inl (OtherException ''ContentTypeError'')\<rparr>"

definition handshake_ok :: "event_source \<Rightarrow> int \<Rightarrow> exn option" where
  "handshake_ok src retry = None"

definition example_stream :: event_stream where
  "example_stream = stream example_session Map.empty (PStr ''123'') None"

definition example_filtered_stream :: event_stream where
  "example_filtered_stream =
     stream example_session Map.empty (PList [PStr ''123''])
       (Some [(''filter'', PStr ''999'')])"

definition example_two_flows :: event_stream where
  "example_two_flows =
     stream example_session Map.empty (PList [PStr ''123'', PStr ''456''])
       (Some [(''user'', PInt 1)])"

definition example_open_stream :: event_stream where
  "example_open_stream = example_stream\<lparr>evt := Some (new_source example_stream [''123''])\<rparr>"

text \<open>A toy JSON grammar for the examples: only \<^verbatim>\<open>null\<close> and \<^verbatim>\<open>[]\<close> are JSON.\<close>

definition example_parse :: "string \<Rightarrow> pyval option" where
  "example_parse s =
     (if s = ''null'' then Some PNone
      else if s = ''[]'' then Some (PList [])
      else None)"

definition example_event :: "string \<Rightarrow> push_event" where
  "example_event d =
     \<lparr>ev_type = ''message'', ev_data = d, ev_origin = [], ev_last_event_id = []\<rparr>"

section \<open>Auxiliary facts\<close>

lemma Session_has_no_emit: "Session_getattr ''emit'' = Inl (AttributeError ''Session'' ''emit'')"
  by (simp add: Session_getattr_def Session_attributes_def)

lemma py_dict_two_positional:
  "py_dict [a, b] kw = Inl (TypeError ''dict expected at most 1 argument, got 2'')"
  by (simp add: py_dict_def str_nat.simps digit_char_def)

lemma lower_get: "lower ''get'' = ''get''"
  by (simp add: lower_def lower_char_def)

lemma lower_post: "lower ''post'' \<noteq> ''get''"
  by (simp add: lower_def lower_char_def)

lemma lower_put: "lower ''put'' \<noteq> ''get''"
  by (simp add: lower_def lower_char_def)

lemma lower_delete: "lower ''delete'' \<noteq> ''get''"
  by (simp add: lower_def lower_char_def)

lemma issued_request:
  "issued (request self transport method path data) =
     [\<lparr>hc_method = method, hc_url = url self @ ''/'' @ path,
       hc_headers = [(''Authorization'', PStr (auth self)),
                    (''Accept'', PStr ''application/json''),
                    (''Content-Type'', PStr ''application/json'')],
       hc_params = (if lower method = ''get'' then Some (py_or data (PDict [])) else None),
       hc_json = (if lower method = ''get'' then None else Some (py_or data (PDict [])))\<rparr>]"
  unfolding request_def Let_def Session_has_no_emit
  by (simp split: sum.split)

lemma map_of_dict_set: "map_of (dict_set k v d) = (map_of d)(k \<mapsto> v)"
  by (induction d) auto

lemma map_of_dict_update:
  "distinct (map fst e) \<Longrightarrow> map_of (dict_update d e) = map_of d ++ map_of e"
proof (induction e arbitrary: d)
  case Nil
  then show ?case by simp
next
  case (Cons p e)
  obtain k v where p: "p = (k, v)" by (cases p)
  from Cons.prems p have k: "map_of e k = None" and dist: "distinct (map fst e)"
    by (auto simp: map_of_eq_None_iff)
  have "dict_update d (p # e) = dict_update (dict_set k v d) e"
    using p by simp
  then have "map_of (dict_update d (p # e)) = map_of (dict_set k v d) ++ map_of e"
    using Cons.IH [OF dist] by simp
  also have "\<dots> = map_of d ++ map_of (p # e)"
    using k p by (auto simp: map_of_dict_set map_add_def fun_eq_iff split: option.splits)
  finally show ?case .
qed

lemma strings_of_map_PStr: "strings_of (map PStr cs) = Some cs"
  by (induction cs) auto

lemma str_join_strings: "str_join sep (PList (map PStr cs)) = Inr (join sep cs)"
  by (simp add: str_join_def strings_of_map_PStr)

lemma stream_options_strings:
  "flows self = PList (map PStr cs) \<Longrightarrow>
     stream_options self =
       Inr \<lparr>opt_params = dict_update [(''filter'', PStr (join '','' cs))] (params self),
            opt_headers = [(''Authorization'', PStr (es_auth self))]\<rparr>"
  by (simp add: stream_options_def str_join_strings)

lemma connect_noop: "evt self = Some src \<Longrightarrow> connect self hs r = (Inr (), self, [])"
  by (simp add: connect_def)

lemma connect_fresh:
  assumes "evt self = None" and "flows self = PList (map PStr cs)"
  shows "connect self hs r =
           (case hs (new_source self cs) (if r < 0 then 0 else r) of
              Some e \<Rightarrow> (Inl e, self\<lparr>evt := Some (new_source self cs)\<rparr>,
                         [Handshake (new_source self cs) (if r < 0 then 0 else r)])
            | None \<Rightarrow> (Inr (), self\<lparr>evt := Some (new_source self cs)\<rparr>,
                       [Handshake (new_source self cs) (if r < 0 then 0 else r),
                        Create_task (new_source self cs)]))"
  using assms(1)
  by (simp add: connect_def stream_options_strings [OF assms(2)] new_source_def Let_def
      split: option.split)

lemma process_data_append:
  "list_all (decodable parse) pre \<Longrightarrow>
     process_data parse (pre @ ds) = process_data parse pre @ process_data parse ds"
proof (induction pre)
  case Nil
  then show ?case by simp
next
  case (Cons d pre)
  then show ?case
    by (cases d) (auto simp: decodable_def json_loads_def)
qed




lemma new_source_evt: "new_source (self\<lparr>evt := e\<rparr>) cs = new_source self cs"
  by (simp add: new_source_def)

lemma example_stream_fresh:
  "evt example_stream = None \<and> flows example_stream = PList (map PStr [''123''])"
  by (simp add: example_stream_def stream_def EventStream_init_def)

section \<open>Properties of the request client\<close>

text \<open>
  C1. When the HTTP library raises, or answers with a status of 300 or more, the handler
  of \<^verbatim>\<open>Session.request\<close> looks up \<^verbatim>\<open>self.emit\<close>. \<^verbatim>\<open>Session\<close> has no such attribute,
  so the call raises \<^verbatim>\<open>AttributeError\<close>: the failure is neither returned as the call's
  result nor published under \<^verbatim>\<open>error\<close>.
\<close>

theorem request_failure_raises_AttributeError:
  assumes "(\<forall>c. transport c = Inl e) \<or> (\<forall>c. transport c = Inr resp) \<and> 300 \<le> resp_status resp"
  shows "result (request self transport method path data) =
           Inl (AttributeError ''Session'' ''emit'')
       \<and> published (request self transport method path data) = []"
  using assms
  by (auto simp: request_def Let_def Session_has_no_emit split: sum.splits)

theorem request_failure_raises_AttributeError_witness:
  "300 \<le> resp_status not_found_response
   \<and> result (request example_session not_found ''get'' ''flows'' PNone) =
       Inl (AttributeError ''Session'' ''emit'')
   \<and> published (request example_session not_found ''get'' ''flows'' PNone) = []"
  using request_failure_raises_AttributeError
    [of not_found "OtherException []" not_found_response example_session "''get''" "''flows''" PNone]
  by (simp add: not_found_def not_found_response_def)

text \<open>
  C7. A response with status 500 and body \<^verbatim>\<open>boom\<close>: the call does not give an error
  value carrying the status and the body; it raises the \<^verbatim>\<open>AttributeError\<close> of the
  failed lookup of \<^verbatim>\<open>self.emit\<close>.
\<close>

theorem request_status_500_raises_AttributeError:
  "request example_session server_error ''post'' ''messages''
       (PDict [(''content'', PStr ''hi'')]) =
     \<lparr>result = Inl (AttributeError ''Session'' ''emit''),
      issued = [\<lparr>hc_method = ''post'', hc_url = ''https://api.flowdock.com/messages'',
                 hc_headers = [(''Authorization'', PStr ''Basic YUBiLmM6cHc=''),
                               (''Accept'', PStr ''application/json''),
                               (''Content-Type'', PStr ''application/json'')],
                 hc_params = None,
                 hc_json = Some (PDict [(''content'', PStr ''hi'')])\<rparr>],
      published = []\<rparr>"
  by (simp add: request_def Let_def Session_has_no_emit server_error_def example_session_def
        lower_post py_or_def)

text \<open>
  C4. \<^verbatim>\<open>thread_message\<close> passes \<^verbatim>\<open>flow_id\<close> and \<^verbatim>\<open>thread_id\<close> as two positional
  arguments to \<^verbatim>\<open>dict\<close>, which accepts at most one: for every flow id, thread id,
  message and tag list the call raises \<^verbatim>\<open>TypeError\<close> while building the payload, and no
  request is issued.
\<close>

theorem thread_message_raises_before_request:
  "thread_message self transport flow_id thread_id msg tags =
     \<lparr>result = Inl (TypeError ''dict expected at most 1 argument, got 2''),
      issued = [], published = []\<rparr>"
  by (simp add: thread_message_def py_dict_two_positional)

text \<open>
  C8 (amended). Every call issues one request. When the method, lower-cased, is
  \<^verbatim>\<open>get\<close>, the body is passed as the query parameters and there is no JSON body; for
  every other method the body is passed as the JSON body and there are no query
  parameters. An absent or empty body is replaced by the empty dictionary, so \<^verbatim>\<open>delete\<close>
  is issued with the empty dictionary as its JSON body.
\<close>

theorem request_body_by_method:
  "issued (request self transport method path data) =
     [\<lparr>hc_method = method, hc_url = url self @ ''/'' @ path,
       hc_headers = [(''Authorization'', PStr (auth self)),
                    (''Accept'', PStr ''application/json''),
                    (''Content-Type'', PStr ''application/json'')],
       hc_params = (if lower method = ''get'' then Some (py_or data (PDict [])) else None),
       hc_json = (if lower method = ''get'' then None else Some (py_or data (PDict [])))\<rparr>]
   \<and> map hc_params (issued (get self transport path data)) = [Some (py_or data (PDict []))]
   \<and> map hc_json (issued (get self transport path data)) = [None]
   \<and> map hc_params (issued (post self transport path data)) = [None]
   \<and> map hc_json (issued (post self transport path data)) = [Some (py_or data (PDict []))]
   \<and> map hc_params (issued (put self transport path data)) = [None]
   \<and> map hc_json (issued (put self transport path data)) = [Some (py_or data (PDict []))]
   \<and> map hc_params (issued (delete self transport path)) = [None]
   \<and> map hc_json (issued (delete self transport path)) = [Some (PDict [])]"
  by (simp add: issued_request get_def post_def put_def delete_def
        lower_get lower_post lower_put lower_delete py_or_def)

text \<open>The claim as stated fails: a \<^verbatim>\<open>delete\<close> request carries the JSON body \<^verbatim>\<open>{}\<close>.\<close>

theorem delete_carries_json_body:
  "map hc_json (issued (delete example_session not_found ''flows/1'')) = [Some (PDict [])]"
  by (simp add: delete_def issued_request lower_delete py_or_def)

section \<open>Properties of the event stream\<close>

text \<open>
  C2 (amended). For a stream whose flows are the strings \<open>cs\<close> and whose options are a
  dictionary, the query parameters are the dictionary \<^verbatim>\<open>{filter: ",".join(cs)}\<close>
  updated with the caller's options: every other key of the caller is sent with the
  caller's value, and \<^verbatim>\<open>filter\<close> is the comma-joined flows only when the caller's
  options have no \<^verbatim>\<open>filter\<close> entry; otherwise the caller's value is sent.
\<close>

theorem stream_options_filter:
  assumes "flows self = PList (map PStr cs)" and "distinct (map fst (params self))"
  shows "stream_options self =
           Inr \<lparr>opt_params = dict_update [(''filter'', PStr (join '','' cs))] (params self),
                opt_headers = [(''Authorization'', PStr (es_auth self))]\<rparr>
       \<and> filter_sent self =
           (case dict_get (params self) ''filter'' of
              None \<Rightarrow> Some (PStr (join '','' cs))
            | Some v \<Rightarrow> Some v)
       \<and> (\<forall>k. k \<noteq> ''filter'' \<longrightarrow>
             dict_get (dict_update [(''filter'', PStr (join '','' cs))] (params self)) k =
             dict_get (params self) k)"
  using assms
  by (auto simp: filter_sent_def stream_options_strings dict_get_def map_of_dict_update
        map_add_def split: option.splits)

theorem stream_options_filter_witness:
  "flows example_two_flows = PList (map PStr [''123'', ''456''])
   \<and> distinct (map fst (params example_two_flows))
   \<and> filter_sent example_two_flows = Some (PStr ''123,456'')
   \<and> dict_get (dict_update [(''filter'', PStr ''123,456'')] (params example_two_flows)) ''user'' =
       Some (PInt 1)"
proof -
  have f: "flows example_two_flows = PList (map PStr [''123'', ''456''])"
    by (simp add: example_two_flows_def stream_def EventStream_init_def)
  have d: "distinct (map fst (params example_two_flows))"
    by (simp add: example_two_flows_def stream_def EventStream_init_def)
  have p: "params example_two_flows = [(''user'', PInt 1)]"
    by (simp add: example_two_flows_def stream_def EventStream_init_def)
  show ?thesis
    using stream_options_filter [OF f d] f d
    by (simp add: p dict_get_def)
qed

text \<open>
  The claim as stated fails: with flows \<^verbatim>\<open>["123"]\<close> and options
  \<^verbatim>\<open>{"filter": "999"}\<close> the value sent under \<^verbatim>\<open>filter\<close> is \<^verbatim>\<open>999\<close>, not the joined
  flows \<^verbatim>\<open>123\<close>.
\<close>

theorem caller_filter_overrides:
  "filter_sent example_filtered_stream = Some (PStr ''999'')
   \<and> str_join '','' (flows example_filtered_stream) = Inr ''123''"
  by (simp add: example_filtered_stream_def filter_sent_def stream_options_def stream_def
        EventStream_init_def str_join_def dict_get_def)

text \<open>
  C9. On a stream that has not been connected and whose flows are strings, the first
  \<^verbatim>\<open>connect\<close> performs exactly one handshake and starts at most one decode loop, whatever
  the handshake gives; a second \<^verbatim>\<open>connect\<close> on the object it leaves returns at once: no
  handshake, no decode loop, no change of the object.
\<close>

theorem connect_twice_one_handshake:
  assumes "evt self = None" and "flows self = PList (map PStr cs)"
  shows "\<exists>res1 s1 a1. connect self hs r1 = (res1, s1, a1)
           \<and> length (filter is_Handshake a1) = 1
           \<and> length (filter is_Create_task a1) \<le> 1
           \<and> connect s1 hs' r2 = (Inr (), s1, [])"
proof (cases "hs (new_source self cs) (if r1 < 0 then 0 else r1)")
  case None
  then show ?thesis
    using connect_fresh [OF assms, of hs r1] by (simp add: connect_noop)
next
  case (Some e)
  then show ?thesis
    using connect_fresh [OF assms, of hs r1] by (simp add: connect_noop)
qed

theorem connect_twice_one_handshake_witness:
  "evt example_stream = None
   \<and> (\<exists>res1 s1 a1. connect example_stream handshake_ok 3 = (res1, s1, a1)
           \<and> length (filter is_Handshake a1) = 1
           \<and> length (filter is_Create_task a1) \<le> 1
           \<and> connect s1 handshake_ok 3 = (Inr (), s1, []))"
proof -
  have n: "evt example_stream = None"
    and f: "flows example_stream = PList (map PStr [''123''])"
    using example_stream_fresh by simp_all
  show ?thesis
    using connect_twice_one_handshake [OF n f, of handshake_ok 3 handshake_ok 3] n
    by simp
qed

text \<open>
  C3 (amended). \<^verbatim>\<open>end\<close> on an open stream closes the event source and resets
  \<^verbatim>\<open>_evt\<close> to \<^verbatim>\<open>None\<close>, the state of a stream that was never connected. A subsequent
  \<^verbatim>\<open>connect\<close> on the same object therefore builds a new event source, stores it in
  \<^verbatim>\<open>_evt\<close> and performs a new handshake, whatever the handshake gives. When the
  handshake succeeds a new decode loop is started and the object is open again; when it
  fails, \<^verbatim>\<open>connect\<close> raises the failure and starts no decode loop.
\<close>

theorem connect_after_end_reopens:
  assumes "evt self = Some src" and "flows self = PList (map PStr cs)"
  shows "end_stream self = (self\<lparr>evt := None\<rparr>, [Close src])
       \<and> connect (self\<lparr>evt := None\<rparr>) hs retry =
           (case hs (new_source self cs) (if retry < 0 then 0 else retry) of
              None \<Rightarrow>
                (Inr (), self\<lparr>evt := Some (new_source self cs)\<rparr>,
                 [Handshake (new_source self cs) (if retry < 0 then 0 else retry),
                  Create_task (new_source self cs)])
            | Some e \<Rightarrow>
                (Inl e, self\<lparr>evt := Some (new_source self cs)\<rparr>,
                 [Handshake (new_source self cs) (if retry < 0 then 0 else retry)]))"
proof -
  let ?s2 = "self\<lparr>evt := None\<rparr>"
  have e: "end_stream self = (?s2, [Close src])"
    using assms(1) by (simp add: end_stream_def)
  have f: "flows ?s2 = PList (map PStr cs)" and n: "evt ?s2 = None"
    using assms(2) by simp_all
  show ?thesis
    using e connect_fresh [OF n f, of hs retry]
    by (simp add: new_source_evt split: option.split)
qed

theorem connect_after_end_reopens_witness:
  "evt example_open_stream = Some (new_source example_stream [''123''])
   \<and> end_stream example_open_stream =
       (example_open_stream\<lparr>evt := None\<rparr>, [Close (new_source example_stream [''123''])])
   \<and> connect (example_open_stream\<lparr>evt := None\<rparr>) handshake_ok 3 =
       (Inr (), example_open_stream\<lparr>evt := Some (new_source example_open_stream [''123''])\<rparr>,
        [Handshake (new_source example_open_stream [''123'']) 3,
         Create_task (new_source example_open_stream [''123''])])"
proof -
  have o: "evt example_open_stream = Some (new_source example_stream [''123''])"
    by (simp add: example_open_stream_def)
  have f: "flows example_open_stream = PList (map PStr [''123''])"
    using example_stream_fresh by (simp add: example_open_stream_def)
  show ?thesis
    using connect_after_end_reopens [OF o f, of handshake_ok 3] o
    by (simp add: handshake_ok_def)
qed

text \<open>
  The claim as stated fails: after \<^verbatim>\<open>connect\<close>, \<^verbatim>\<open>end\<close>, the second \<^verbatim>\<open>connect\<close> on the
  same object performs a handshake, and the object has an event source again.
\<close>

theorem closed_stream_reconnects:
  "length (filter is_Handshake
     (snd (snd (connect (fst (end_stream (fst (snd (connect example_stream handshake_ok 3)))))
                  handshake_ok 3)))) = 1
   \<and> evt (fst (snd (connect (fst (end_stream (fst (snd (connect example_stream handshake_ok 3)))))
                  handshake_ok 3))) \<noteq> None"
  by (simp add: end_stream_def connect_def stream_options_def str_join_def Let_def
        example_stream_def stream_def EventStream_init_def handshake_ok_def)




text \<open>
  C6. When the decode loop has got past the deliveries \<open>pre\<close> and the next event's data
  parses to the JSON value \<open>j\<close>, the loop publishes \<^verbatim>\<open>rawdata\<close> with the raw event,
  directly followed by \<^verbatim>\<open>message\<close> with \<open>j\<close>, and goes on with the rest of the
  deliveries.
\<close>

theorem valid_event_rawdata_then_message:
  assumes "list_all (decodable parse) pre" and "parse (ev_data ev) = Some j"
  shows "process_data parse (pre @ Event ev # rest) =
           process_data parse pre @
           (''rawdata'', Raw_event ev) # (''message'', Message j) # process_data parse rest"
  using assms
  by (simp add: process_data_append json_loads_def)

theorem valid_event_rawdata_then_message_witness:
  "example_parse ''[]'' = Some (PList [])
   \<and> process_data example_parse
       [Event (example_event ''null''), Event (example_event ''[]''),
        Iteration_raises (ClientConnectionError ''closed'')] =
     [(''rawdata'', Raw_event (example_event ''null'')), (''message'', Message PNone),
      (''rawdata'', Raw_event (example_event ''[]'')), (''message'', Message (PList [])),
      (''disconnected'', Failure_payload (ClientConnectionError ''closed''))]"
proof -
  have p: "list_all (decodable example_parse) [Event (example_event ''null'')]"
    by (simp add: decodable_def example_parse_def example_event_def)
  have b: "example_parse (ev_data (example_event ''[]'')) = Some (PList [])"
    by (simp add: example_parse_def example_event_def)
  show ?thesis
    using valid_event_rawdata_then_message
            [OF p b, of "[Iteration_raises (ClientConnectionError ''closed'')]"] b
    by (simp add: json_loads_def example_parse_def example_event_def on_exception_def)
qed

text \<open>
  C10. \<^verbatim>\<open>Session.stream\<close> called with a value that is not a list returns a stream whose
  flows are the one-element list of that value and whose \<^verbatim>\<open>_evt\<close> is \<^verbatim>\<open>None\<close> (no
  handshake has been attempted). When the value is a string, the comma-joined flows are
  that string, and without caller options it is the value sent under \<^verbatim>\<open>filter\<close>.
\<close>

theorem stream_wraps_single_flow:
  assumes "\<not> is_list v"
  shows "flows (stream self environ v options) = PList [v]
       \<and> evt (stream self environ v options) = None
       \<and> (\<forall>c. v = PStr c \<longrightarrow>
             str_join '','' (flows (stream self environ v options)) = Inr c
           \<and> filter_sent (stream self environ v None) = Some (PStr c))"
  using assms
  by (auto simp: stream_def EventStream_init_def Let_def str_join_def filter_sent_def
        stream_options_def dict_get_def)

theorem stream_wraps_single_flow_witness:
  "\<not> is_list (PStr ''123'')
   \<and> flows example_stream = PList [PStr ''123'']
   \<and> evt example_stream = None
   \<and> str_join '','' (flows example_stream) = Inr ''123''
   \<and> filter_sent example_stream = Some (PStr ''123'')"
proof -
  have h: "\<not> is_list (PStr ''123'')"
    by simp
  show ?thesis
    using stream_wraps_single_flow [OF h, of example_session Map.empty None] h
    by (simp add: example_stream_def str_join_def)
qed

end
